theory Spec2Isabelle
  imports Main
begin

section \<open>The image service: \<open>services/geminiService.ts\<close>\<close>

text \<open>
  The module exports one asynchronous function, \<open>generateOrEditImage(prompt, image?)\<close>.
  It calls one of two operations of the provider's client \<open>ai.models\<close>, reads the
  image out of the response and returns it as a data URL
  \<open>data:MEDIATYPE;base64,PAYLOAD\<close>; every failure leaves the function as a
  rejected promise carrying a JavaScript \<open>Error\<close>.

  The embedding is shallow. The promise is a value of a sum type (\<open>Inl\<close> the thrown
  value, \<open>Inr\<close> the returned string). The client \<open>ai\<close>, a module-level constant of
  the source, is a parameter. What lies outside the function (the provider behind the
  client, and the console the handler writes to) is an explicit state that every call
  takes and returns.
\<close>

subsection \<open>JavaScript values the function handles\<close>

text \<open>
  A thrown value is either an instance of \<open>Error\<close> (or of a subclass such as
  \<open>TypeError\<close>), of which the function reads only \<open>message\<close>, or any other value
  (JavaScript lets a program throw a string, a number, an object); the text kept for the
  latter is only there to tell such values apart.
\<close>

datatype thrown = JsError string | NonError string

text \<open>The argument \<open>image?: { data: string; mimeType: string }\<close>.\<close>

record inputImage =
  data :: string
  mimeType :: string

text \<open>
  The shapes of the client's requests and responses are declared by the provider's
  library, not by this repository. The records below hold the fields the function writes
  and reads, under the names it uses. A field the function reads through \<open>?.\<close> or tests
  for truth is optional, and so is every field of a response in the library's
  declarations: \<open>None\<close> is JavaScript's \<open>undefined\<close>. The field \<open>text\<close> of a part is
  \<open>part_text\<close> here, and the field \<open>image\<close> of a generated image is \<open>image'\<close>.
\<close>

record blob =
  blob_data :: "string option"
  blob_mimeType :: "string option"

record part =
  part_text :: "string option"
  inlineData :: "blob option"

record content =
  parts :: "part list option"

record candidate =
  content :: "content option"

record generateContentResponse =
  candidates :: "candidate list option"

record image =
  imageBytes :: "string option"
  image_mimeType :: "string option"

record generatedImage =
  image' :: "image option"
  raiFilteredReason :: "string option"

record generateImagesResponse =
  generatedImages :: "generatedImage list option"

datatype modality = TEXT | IMAGE | AUDIO

record generateContentConfig =
  responseModalities :: "modality list"

record generateContentParameters =
  gc_model :: string
  contents :: content
  gc_config :: generateContentConfig

record generateImagesConfig =
  numberOfImages :: nat
  outputMimeType :: string
  aspectRatio :: string

record generateImagesParameters =
  gi_model :: string
  gi_prompt :: string
  gi_config :: generateImagesConfig

subsection \<open>What the function runs against\<close>

text \<open>
  \<open>'r\<close> is the state of the provider as the client sees it (a mock's script, a
  server's quota); an operation takes it and returns it with its result, which is a
  response or a thrown value (the promise \<open>await\<close> waits for is rejected).
  \<open>undefinedRead p\<close> is the message the JavaScript engine gives the \<open>TypeError\<close> it
  raises when property \<open>p\<close> of \<open>undefined\<close> is read; the text differs between engines.
\<close>

record 'r host =
  generateContent ::
    "generateContentParameters \<Rightarrow> 'r \<Rightarrow> (thrown + generateContentResponse) \<times> 'r"
  generateImages ::
    "generateImagesParameters \<Rightarrow> 'r \<Rightarrow> (thrown + generateImagesResponse) \<times> 'r"
  undefinedRead :: "string \<Rightarrow> string"

text \<open>
  The state a call can touch: the lines \<open>console.error\<close> has written (its two
  arguments, a label and the value caught) and the provider's state.
\<close>

record 'r world =
  console :: "(string \<times> thrown) list"
  remote :: 'r

subsection \<open>The function\<close>

text \<open>\<open>${x}\<close> in a template literal: the string itself, or the text \<open>undefined\<close>.\<close>

definition interpolate :: "string option \<Rightarrow> string" where
  "interpolate x = (case x of None \<Rightarrow> ''undefined'' | Some s \<Rightarrow> s)"

text \<open>\<open>xs[0]\<close>: \<open>undefined\<close> on an empty array.\<close>

definition at0 :: "'a list \<Rightarrow> 'a option" where
  "at0 xs = (case xs of [] \<Rightarrow> None | x # _ \<Rightarrow> Some x)"

text \<open>The two requests (lines 22-33 and 45-53).\<close>

definition editRequest :: "string \<Rightarrow> inputImage \<Rightarrow> generateContentParameters" where
  "editRequest prompt img =
     \<lparr>gc_model = ''gemini-2.5-flash-image'',
      contents = \<lparr>parts = Some
        [\<lparr>part_text = None,
          inlineData = Some \<lparr>blob_data = Some (data img), blob_mimeType = Some (mimeType img)\<rparr>\<rparr>,
         \<lparr>part_text = Some prompt, inlineData = None\<rparr>]\<rparr>,
      gc_config = \<lparr>responseModalities = [IMAGE]\<rparr>\<rparr>"

definition generateRequest :: "string \<Rightarrow> generateImagesParameters" where
  "generateRequest prompt =
     \<lparr>gi_model = ''imagen-4.0-generate-001'',
      gi_prompt = prompt,
      gi_config = \<lparr>numberOfImages = 1, outputMimeType = ''image/jpeg'', aspectRatio = ''1:1''\<rparr>\<rparr>"

text \<open>
  Line 36: \<open>response.candidates?.[0]?.content?.parts?.find(p => p.inlineData)\<close>. Each
  \<open>?.\<close> passes \<open>undefined\<close> on; \<open>find\<close> gives the first part whose \<open>inlineData\<close> is
  truthy (an object is, whatever it holds) or \<open>undefined\<close>.
\<close>

definition findImagePart :: "generateContentResponse \<Rightarrow> part option" where
  "findImagePart response =
     Option.bind (Option.bind (Option.bind (Option.bind (candidates response) at0) content) parts)
       (List.find (\<lambda>p. inlineData p \<noteq> None))"

text \<open>Lines 36-41: what the edit branch does with the response.\<close>

definition editResult :: "generateContentResponse \<Rightarrow> thrown + string" where
  "editResult response =
     (case Option.bind (findImagePart response) inlineData of
        Some b \<Rightarrow>
          Inr (''data:'' @ interpolate (blob_mimeType b) @ '';base64,'' @ interpolate (blob_data b))
      | None \<Rightarrow> Inl (JsError ''API did not return an edited image.''))"

text \<open>
  Lines 55-64: what the generate branch does with the response. \<open>!x\<close> holds of a missing
  array and of a missing or empty string, not of an empty array. Line 59 reads
  \<open>.image.imageBytes\<close> with no \<open>?.\<close>: on an entry without \<open>image\<close> the engine raises a
  \<open>TypeError\<close>.
\<close>

definition generateResult :: "(string \<Rightarrow> string) \<Rightarrow> generateImagesResponse \<Rightarrow> thrown + string" where
  "generateResult typeError response =
     (case generatedImages response of
        None \<Rightarrow> Inl (JsError ''API did not return any images.'')
      | Some gs \<Rightarrow>
          if length gs = 0 then Inl (JsError ''API did not return any images.'')
          else
            (case at0 gs of
               None \<Rightarrow> Inl (JsError (typeError ''image''))
             | Some g \<Rightarrow>
                 (case image' g of
                    None \<Rightarrow> Inl (JsError (typeError ''imageBytes''))
                  | Some im \<Rightarrow>
                      (case imageBytes im of
                         None \<Rightarrow> Inl (JsError ''Generated image data is empty.'')
                       | Some base64ImageBytes \<Rightarrow>
                           if base64ImageBytes = [] then Inl (JsError ''Generated image data is empty.'')
                           else Inr (''data:image/jpeg;base64,'' @ base64ImageBytes)))))"

text \<open>Lines 19-65, the body of \<open>try\<close>: the branch on \<open>image\<close>, one call, one result.\<close>

definition tryBlock ::
  "'r host \<Rightarrow> string \<Rightarrow> inputImage option \<Rightarrow> 'r world \<Rightarrow> (thrown + string) \<times> 'r world" where
  "tryBlock ai prompt img w =
     (case img of
        Some i \<Rightarrow>
          (case generateContent ai (editRequest prompt i) (remote w) of
             (Inl e, r) \<Rightarrow> (Inl e, w\<lparr>remote := r\<rparr>)
           | (Inr response, r) \<Rightarrow> (editResult response, w\<lparr>remote := r\<rparr>))
      | None \<Rightarrow>
          (case generateImages ai (generateRequest prompt) (remote w) of
             (Inl e, r) \<Rightarrow> (Inl e, w\<lparr>remote := r\<rparr>)
           | (Inr response, r) \<Rightarrow> (generateResult (undefinedRead ai) response, w\<lparr>remote := r\<rparr>)))"

text \<open>Lines 66-72, the handler: it logs what it caught and always throws an \<open>Error\<close>.\<close>

definition catchClause :: "thrown \<Rightarrow> 'r world \<Rightarrow> (thrown + string) \<times> 'r world" where
  "catchClause error w =
     (let w' = w\<lparr>console := console w @ [(''Error generating content with Gemini API:'', error)]\<rparr>
      in case error of
           JsError message \<Rightarrow> (Inl (JsError (''Gemini API Error: '' @ message)), w')
         | NonError v \<Rightarrow>
             (Inl (JsError ''An unknown error occurred while generating the content.''), w'))"

definition generateOrEditImage ::
  "'r host \<Rightarrow> string \<Rightarrow> inputImage option \<Rightarrow> 'r world \<Rightarrow> (thrown + string) \<times> 'r world" where
  "generateOrEditImage ai prompt img w =
     (case tryBlock ai prompt img w of
        (Inr url, w') \<Rightarrow> (Inr url, w')
      | (Inl error, w') \<Rightarrow> catchClause error w')"

subsection \<open>A scripted client\<close>

text \<open>
  To run the function on concrete replies: a client that answers every edit request with
  one fixed reply and every generate request with another, and counts the requests it
  has served. Its engine words the \<open>TypeError\<close> as V8 does.
\<close>

definition v8UndefinedRead :: "string \<Rightarrow> string" where
  "v8UndefinedRead p =
     ''Cannot read properties of undefined (reading '' @ [CHR 0x27] @ p @ [CHR 0x27] @ '')''"

definition scripted ::
  "thrown + generateContentResponse \<Rightarrow> thrown + generateImagesResponse \<Rightarrow> nat host" where
  "scripted editReply generateReply =
     \<lparr>generateContent = (\<lambda>request served. (editReply, Suc served)),
      generateImages = (\<lambda>request served. (generateReply, Suc served)),
      undefinedRead = v8UndefinedRead\<rparr>"

definition freshWorld :: "nat world" where
  "freshWorld = \<lparr>console = [], remote = 0\<rparr>"

definition partsReply :: "part list \<Rightarrow> generateContentResponse" where
  "partsReply ps = \<lparr>candidates = Some [\<lparr>content = Some \<lparr>parts = Some ps\<rparr>\<rparr>]\<rparr>"

definition textPart :: "string \<Rightarrow> part" where
  "textPart s = \<lparr>part_text = Some s, inlineData = None\<rparr>"

definition imagePart :: "string option \<Rightarrow> string option \<Rightarrow> part" where
  "imagePart payload mediaType =
     \<lparr>part_text = None, inlineData = Some \<lparr>blob_data = payload, blob_mimeType = mediaType\<rparr>\<rparr>"

definition imagesReply :: "generatedImage list \<Rightarrow> generateImagesResponse" where
  "imagesReply gs = \<lparr>generatedImages = Some gs\<rparr>"

definition pngUpload :: inputImage where
  "pngUpload = \<lparr>data = ''iVBORw0KGgo='', mimeType = ''image/png''\<rparr>"

section \<open>Properties\<close>

subsection \<open>The function, branch by branch\<close>

lemma run_edit:
  "generateOrEditImage ai prompt (Some i) w =
     (case generateContent ai (editRequest prompt i) (remote w) of
        (Inl e, r) \<Rightarrow> catchClause e (w\<lparr>remote := r\<rparr>)
      | (Inr response, r) \<Rightarrow>
          (case editResult response of
             Inl e \<Rightarrow> catchClause e (w\<lparr>remote := r\<rparr>)
           | Inr url \<Rightarrow> (Inr url, w\<lparr>remote := r\<rparr>)))"
  by (simp add: generateOrEditImage_def tryBlock_def split: prod.splits sum.splits)

lemma run_generate:
  "generateOrEditImage ai prompt None w =
     (case generateImages ai (generateRequest prompt) (remote w) of
        (Inl e, r) \<Rightarrow> catchClause e (w\<lparr>remote := r\<rparr>)
      | (Inr response, r) \<Rightarrow>
          (case generateResult (undefinedRead ai) response of
             Inl e \<Rightarrow> catchClause e (w\<lparr>remote := r\<rparr>)
           | Inr url \<Rightarrow> (Inr url, w\<lparr>remote := r\<rparr>)))"
  by (simp add: generateOrEditImage_def tryBlock_def split: prod.splits sum.splits)

lemma fst_catchClause:
  "fst (catchClause e w) =
     Inl (JsError (case e of
        JsError m \<Rightarrow> ''Gemini API Error: '' @ m
      | NonError v \<Rightarrow> ''An unknown error occurred while generating the content.''))"
  by (simp add: catchClause_def Let_def split: thrown.splits)

lemma remote_catchClause: "remote (snd (catchClause e w)) = remote w"
  by (simp add: catchClause_def Let_def split: thrown.splits)

lemma findImagePart_parts:
  "candidates response = Some (c # cs) \<Longrightarrow> content c = Some ct \<Longrightarrow> parts ct = Some ps \<Longrightarrow>
     findImagePart response = List.find (\<lambda>p. inlineData p \<noteq> None) ps"
  by (simp add: findImagePart_def at0_def)

lemma find_first:
  "\<forall>q\<in>set pre. \<not> P q \<Longrightarrow> P p \<Longrightarrow> List.find P (pre @ p # post) = Some p"
  by (induction pre) simp_all

lemma find_none: "\<forall>q\<in>set ps. \<not> P q \<Longrightarrow> List.find P ps = None"
  by (induction ps) simp_all

lemma image_part_found:
  "q \<in> set ps \<Longrightarrow> inlineData q \<noteq> None \<Longrightarrow>
     \<exists>p b. List.find (\<lambda>p. inlineData p \<noteq> None) ps = Some p \<and> inlineData p = Some b"
  by (induction ps) auto

lemma tryBlock_edit:
  "tryBlock ai prompt (Some i) w =
     (case generateContent ai (editRequest prompt i) (remote w) of
        (Inl e, r) \<Rightarrow> (Inl e, w\<lparr>remote := r\<rparr>)
      | (Inr response, r) \<Rightarrow> (editResult response, w\<lparr>remote := r\<rparr>))"
  by (simp add: tryBlock_def)

lemma tryBlock_generate:
  "tryBlock ai prompt None w =
     (case generateImages ai (generateRequest prompt) (remote w) of
        (Inl e, r) \<Rightarrow> (Inl e, w\<lparr>remote := r\<rparr>)
      | (Inr response, r) \<Rightarrow> (generateResult (undefinedRead ai) response, w\<lparr>remote := r\<rparr>))"
  by (simp add: tryBlock_def)

lemma never_non_error: "fst (generateOrEditImage ai prompt img w) \<noteq> Inl (NonError v)"
  by (cases "tryBlock ai prompt img w"; cases "fst (tryBlock ai prompt img w)")
     (auto simp: generateOrEditImage_def fst_catchClause split: sum.splits)

lemma rethrown_differs: "fst (catchClause e w) \<noteq> Inl e"
  by (cases e) (simp_all add: fst_catchClause)

subsection \<open>Choice of the operation\<close>

text \<open>
  C1. With an \<open>image\<close> argument the function performs the edit operation and only it;
  without one, the generate operation and only it. The choice depends on nothing but the
  presence of the argument: it holds for every prompt and every image. In the model: with
  an image, the provider is left in the state one \<open>generateContent\<close> call on the edit
  request leaves it in, and replacing the client's \<open>generateImages\<close> by any other
  function changes nothing of the call (so it is not used); without an image,
  symmetrically. Each response is read by its own branch only.
\<close>

theorem path_selection:
  "generateOrEditImage (ai\<lparr>generateImages := g\<rparr>) prompt (Some i) w
     = generateOrEditImage ai prompt (Some i) w
   \<and> remote (snd (generateOrEditImage ai prompt (Some i) w))
     = snd (generateContent ai (editRequest prompt i) (remote w))
   \<and> generateOrEditImage (ai\<lparr>generateContent := c\<rparr>) prompt None w
     = generateOrEditImage ai prompt None w
   \<and> remote (snd (generateOrEditImage ai prompt None w))
     = snd (generateImages ai (generateRequest prompt) (remote w))"
  by (simp add: run_edit run_generate remote_catchClause split: prod.splits sum.splits)

subsection \<open>The edit path\<close>

text \<open>
  C3. On the edit path, when no part of the response's parts list carries inline image
  data, the call fails with the reason "no edited image produced": the message
  \<open>API did not return an edited image.\<close>, which leaves the function behind the
  handler's prefix.
\<close>

theorem edit_without_image_part:
  assumes "generateContent ai (editRequest prompt i) (remote w) = (Inr response, r)"
    and "candidates response = Some (c # cs)"
    and "content c = Some ct"
    and "parts ct = Some ps"
    and "\<forall>p\<in>set ps. inlineData p = None"
  shows "fst (generateOrEditImage ai prompt (Some i) w)
           = Inl (JsError ''Gemini API Error: API did not return an edited image.'')"
proof -
  have "List.find (\<lambda>p. inlineData p \<noteq> None) ps = None"
    using assms(5) by (intro find_none) simp
  then have "findImagePart response = None"
    using assms(2-4) by (simp add: findImagePart_parts)
  then have "editResult response = Inl (JsError ''API did not return an edited image.'')"
    by (simp add: editResult_def)
  then show ?thesis
    using assms(1) by (simp add: run_edit fst_catchClause)
qed

theorem edit_without_image_part_witness:
  "fst (generateOrEditImage
          (scripted (Inr (partsReply [textPart ''I cannot edit this.''])) (Inl (NonError ''unused'')))
          ''make the sky red'' (Some pngUpload) freshWorld)
     = Inl (JsError ''Gemini API Error: API did not return an edited image.'')"
  using edit_without_image_part
    [of "scripted (Inr (partsReply [textPart ''I cannot edit this.''])) (Inl (NonError ''unused''))"
        "''make the sky red''" pngUpload freshWorld
        "partsReply [textPart ''I cannot edit this.'']" "Suc 0"
        "\<lparr>content = Some \<lparr>parts = Some [textPart ''I cannot edit this.'']\<rparr>\<rparr>" "[]"
        "\<lparr>parts = Some [textPart ''I cannot edit this.'']\<rparr>" "[textPart ''I cannot edit this.'']"]
  by (simp add: scripted_def freshWorld_def partsReply_def textPart_def)

text \<open>
  C4. On the edit path, when the parts list holds a part with inline image data, the call
  returns the first such part: payload \<open>P\<close> and media type \<open>M\<close> of that part, as the data
  URL \<open>data:M;base64,P\<close>. Parts before it carry no inline data; what follows it is not
  looked at.
\<close>

theorem edit_returns_first_image_part:
  assumes "generateContent ai (editRequest prompt i) (remote w) = (Inr response, r)"
    and "candidates response = Some (c # cs)"
    and "content c = Some ct"
    and "parts ct = Some (pre @ p # post)"
    and "\<forall>q\<in>set pre. inlineData q = None"
    and "inlineData p = Some \<lparr>blob_data = Some P, blob_mimeType = Some M\<rparr>"
  shows "generateOrEditImage ai prompt (Some i) w
           = (Inr (''data:'' @ M @ '';base64,'' @ P), w\<lparr>remote := r\<rparr>)"
proof -
  have "List.find (\<lambda>p. inlineData p \<noteq> None) (pre @ p # post) = Some p"
    using assms(5,6) by (intro find_first) simp_all
  then have "findImagePart response = Some p"
    using assms(2-4) by (simp add: findImagePart_parts)
  then have "editResult response = Inr (''data:'' @ M @ '';base64,'' @ P)"
    using assms(6) by (simp add: editResult_def interpolate_def)
  then show ?thesis
    using assms(1) by (simp add: run_edit)
qed

theorem edit_returns_first_image_part_witness:
  "generateOrEditImage
     (scripted
        (Inr (partsReply
           [textPart ''Here you are.'', imagePart (Some ''AAAA'') (Some ''image/png''),
            imagePart (Some ''BBBB'') (Some ''image/webp'')]))
        (Inl (NonError ''unused'')))
     ''make the sky red'' (Some pngUpload) freshWorld
   = (Inr ''data:image/png;base64,AAAA'', \<lparr>console = [], remote = Suc 0\<rparr>)"
  using edit_returns_first_image_part
    [of "scripted
           (Inr (partsReply
              [textPart ''Here you are.'', imagePart (Some ''AAAA'') (Some ''image/png''),
               imagePart (Some ''BBBB'') (Some ''image/webp'')]))
           (Inl (NonError ''unused''))"
        "''make the sky red''" pngUpload freshWorld
        "partsReply
           [textPart ''Here you are.'', imagePart (Some ''AAAA'') (Some ''image/png''),
            imagePart (Some ''BBBB'') (Some ''image/webp'')]"
        "Suc 0"
        "\<lparr>content = Some \<lparr>parts = Some
           [textPart ''Here you are.'', imagePart (Some ''AAAA'') (Some ''image/png''),
            imagePart (Some ''BBBB'') (Some ''image/webp'')]\<rparr>\<rparr>"
        "[]"
        "\<lparr>parts = Some
           [textPart ''Here you are.'', imagePart (Some ''AAAA'') (Some ''image/png''),
            imagePart (Some ''BBBB'') (Some ''image/webp'')]\<rparr>"
        "[textPart ''Here you are.'']" "imagePart (Some ''AAAA'') (Some ''image/png'')"
        "[imagePart (Some ''BBBB'') (Some ''image/webp'')]" "''AAAA''" "''image/png''"]
  by (simp add: scripted_def freshWorld_def partsReply_def textPart_def imagePart_def)

text \<open>
  C8. The edit path has no check of the payload. Whenever some part of the parts list
  carries \<open>inlineData\<close> the call succeeds; when the first such part holds the empty
  string as its data, the call returns a data URL with nothing after \<open>base64,\<close> (an
  image of no bytes), and when its data is missing, one with the text \<open>undefined\<close> in
  that place. Neither is an error, unlike on the generate path.
\<close>

theorem edit_accepts_empty_payload:
  assumes "generateContent ai (editRequest prompt i) (remote w) = (Inr response, r)"
    and "candidates response = Some (c # cs)"
    and "content c = Some ct"
    and "parts ct = Some ps"
  shows "((\<exists>q\<in>set ps. inlineData q \<noteq> None) \<longrightarrow>
            (\<exists>url. generateOrEditImage ai prompt (Some i) w = (Inr url, w\<lparr>remote := r\<rparr>)))
       \<and> (\<forall>pre p post M.
            ps = pre @ p # post \<and> (\<forall>q\<in>set pre. inlineData q = None)
             \<and> inlineData p = Some \<lparr>blob_data = Some [], blob_mimeType = Some M\<rparr> \<longrightarrow>
            generateOrEditImage ai prompt (Some i) w
              = (Inr (''data:'' @ M @ '';base64,''), w\<lparr>remote := r\<rparr>))
       \<and> (\<forall>pre p post M.
            ps = pre @ p # post \<and> (\<forall>q\<in>set pre. inlineData q = None)
             \<and> inlineData p = Some \<lparr>blob_data = None, blob_mimeType = Some M\<rparr> \<longrightarrow>
            generateOrEditImage ai prompt (Some i) w
              = (Inr (''data:'' @ M @ '';base64,undefined''), w\<lparr>remote := r\<rparr>))"
proof -
  have found: "findImagePart response = List.find (\<lambda>p. inlineData p \<noteq> None) ps"
    using assms(2-4) by (rule findImagePart_parts)
  have run: "generateOrEditImage ai prompt (Some i) w =
      (case editResult response of
         Inl e \<Rightarrow> catchClause e (w\<lparr>remote := r\<rparr>)
       | Inr url \<Rightarrow> (Inr url, w\<lparr>remote := r\<rparr>))"
    using assms(1) by (simp add: run_edit)
  have some: "\<exists>url. generateOrEditImage ai prompt (Some i) w = (Inr url, w\<lparr>remote := r\<rparr>)"
    if carried: "\<exists>q\<in>set ps. inlineData q \<noteq> None"
  proof -
    obtain p b where "List.find (\<lambda>p. inlineData p \<noteq> None) ps = Some p" "inlineData p = Some b"
      using carried image_part_found by blast
    then show ?thesis
      by (simp add: run editResult_def found)
  qed
  have first: "generateOrEditImage ai prompt (Some i) w
      = (Inr (''data:'' @ M @ '';base64,'' @ interpolate payload), w\<lparr>remote := r\<rparr>)"
    if "ps = pre @ p # post" "\<forall>q\<in>set pre. inlineData q = None"
      "inlineData p = Some \<lparr>blob_data = payload, blob_mimeType = Some M\<rparr>"
    for pre p post M payload
  proof -
    have "List.find (\<lambda>p. inlineData p \<noteq> None) (pre @ p # post) = Some p"
      using that(2,3) by (intro find_first) simp_all
    then show ?thesis
      using that(1,3) by (simp add: run editResult_def found interpolate_def)
  qed
  show ?thesis
    using some first [where payload = "Some []"] first [where payload = None]
    by (simp add: interpolate_def)
qed

theorem edit_accepts_empty_payload_witness:
  "generateOrEditImage
     (scripted
        (Inr (partsReply [textPart ''Done.'', imagePart (Some []) (Some ''image/png'')]))
        (Inl (NonError ''unused'')))
     ''make the sky red'' (Some pngUpload) freshWorld
   = (Inr ''data:image/png;base64,'', \<lparr>console = [], remote = Suc 0\<rparr>)"
  using edit_accepts_empty_payload
    [of "scripted
           (Inr (partsReply [textPart ''Done.'', imagePart (Some []) (Some ''image/png'')]))
           (Inl (NonError ''unused''))"
        "''make the sky red''" pngUpload freshWorld
        "partsReply [textPart ''Done.'', imagePart (Some []) (Some ''image/png'')]" "Suc 0"
        "\<lparr>content = Some \<lparr>parts = Some
           [textPart ''Done.'', imagePart (Some []) (Some ''image/png'')]\<rparr>\<rparr>"
        "[]"
        "\<lparr>parts = Some [textPart ''Done.'', imagePart (Some []) (Some ''image/png'')]\<rparr>"
        "[textPart ''Done.'', imagePart (Some []) (Some ''image/png'')]",
     THEN conjunct2, THEN conjunct1, rule_format,
     of "[textPart ''Done.'']" "imagePart (Some []) (Some ''image/png'')" "[]" "''image/png''"]
  by (simp add: scripted_def freshWorld_def partsReply_def textPart_def imagePart_def)

text \<open>
  C9. On the edit path the response is read without any failure of its own, and every
  degenerate shape ends in the same error: a missing or empty candidates list, a first
  candidate without content, a content without parts list all fail with "no edited image
  produced" (the message \<open>API did not return an edited image.\<close> behind the handler's
  prefix). Whatever the response, the call returns a data URL or fails with that error.
  Only the first candidate is read: the candidates after it change nothing.
\<close>

theorem edit_degenerate_shapes:
  assumes "generateContent ai (editRequest prompt i) (remote w) = (Inr response, r)"
  shows "(candidates response = None \<or> candidates response = Some []
          \<or> (\<exists>c cs. candidates response = Some (c # cs)
                \<and> (content c = None \<or> (\<exists>ct. content c = Some ct \<and> parts ct = None)))
          \<longrightarrow> fst (generateOrEditImage ai prompt (Some i) w)
                = Inl (JsError ''Gemini API Error: API did not return an edited image.''))
       \<and> ((\<exists>url. fst (generateOrEditImage ai prompt (Some i) w) = Inr url)
          \<or> fst (generateOrEditImage ai prompt (Some i) w)
               = Inl (JsError ''Gemini API Error: API did not return an edited image.''))
       \<and> (\<forall>c cs. candidates response = Some (c # cs) \<longrightarrow>
            editResult response = editResult (response\<lparr>candidates := Some [c]\<rparr>))"
proof -
  have run: "fst (generateOrEditImage ai prompt (Some i) w) =
      (case editResult response of
         Inl e \<Rightarrow> fst (catchClause e (w\<lparr>remote := r\<rparr>))
       | Inr url \<Rightarrow> Inr url)"
    using assms(1) by (simp add: run_edit split: sum.splits)
  have total: "(\<exists>url. editResult response = Inr url)
      \<or> editResult response = Inl (JsError ''API did not return an edited image.'')"
    by (simp add: editResult_def split: option.splits)
  have degenerate: "editResult response = Inl (JsError ''API did not return an edited image.'')"
    if "candidates response = None \<or> candidates response = Some []
          \<or> (\<exists>c cs. candidates response = Some (c # cs)
                \<and> (content c = None \<or> (\<exists>ct. content c = Some ct \<and> parts ct = None)))"
    using that by (auto simp: editResult_def findImagePart_def at0_def)
  have head: "editResult response = editResult (response\<lparr>candidates := Some [c]\<rparr>)"
    if "candidates response = Some (c # cs)" for c cs
    using that by (simp add: editResult_def findImagePart_def at0_def)
  show ?thesis
    using total degenerate head by (auto simp: run fst_catchClause)
qed

theorem edit_degenerate_shapes_witness:
  "fst (generateOrEditImage
          (scripted (Inr \<lparr>candidates = None\<rparr>) (Inl (NonError ''unused'')))
          ''make the sky red'' (Some pngUpload) freshWorld)
     = Inl (JsError ''Gemini API Error: API did not return an edited image.'')
   \<and> fst (generateOrEditImage
          (scripted (Inr \<lparr>candidates = Some [\<lparr>content = None\<rparr>]\<rparr>) (Inl (NonError ''unused'')))
          ''make the sky red'' (Some pngUpload) freshWorld)
     = Inl (JsError ''Gemini API Error: API did not return an edited image.'')"
  using
    edit_degenerate_shapes
      [of "scripted (Inr \<lparr>candidates = None\<rparr>) (Inl (NonError ''unused''))"
          "''make the sky red''" pngUpload freshWorld "\<lparr>candidates = None\<rparr>" "Suc 0",
       THEN conjunct1]
    edit_degenerate_shapes
      [of "scripted (Inr \<lparr>candidates = Some [\<lparr>content = None\<rparr>]\<rparr>) (Inl (NonError ''unused''))"
          "''make the sky red''" pngUpload freshWorld
          "\<lparr>candidates = Some [\<lparr>content = None\<rparr>]\<rparr>" "Suc 0",
       THEN conjunct1]
  by (simp add: scripted_def freshWorld_def)

subsection \<open>The generate path\<close>

text \<open>
  What the generate path does with each shape of the response the client returns: a
  missing or empty list of images fails with \<open>API did not return any images.\<close>; a
  first entry whose image holds no payload, or an empty one, fails with
  \<open>Generated image data is empty.\<close>; a first entry that holds no image at all fails with
  the engine's \<open>TypeError\<close> message. All three leave behind the handler's prefix.
\<close>

lemma generate_shape_failures:
  assumes "generateImages ai (generateRequest prompt) (remote w) = (Inr response, r)"
  shows "(generatedImages response = None \<or> generatedImages response = Some [] \<longrightarrow>
            fst (generateOrEditImage ai prompt None w)
              = Inl (JsError ''Gemini API Error: API did not return any images.''))
       \<and> (\<forall>g gs im. generatedImages response = Some (g # gs) \<and> image' g = Some im
              \<and> (imageBytes im = None \<or> imageBytes im = Some []) \<longrightarrow>
            fst (generateOrEditImage ai prompt None w)
              = Inl (JsError ''Gemini API Error: Generated image data is empty.''))
       \<and> (\<forall>g gs. generatedImages response = Some (g # gs) \<and> image' g = None \<longrightarrow>
            fst (generateOrEditImage ai prompt None w)
              = Inl (JsError (''Gemini API Error: '' @ undefinedRead ai ''imageBytes'')))"
proof -
  have run: "fst (generateOrEditImage ai prompt None w) =
      (case generateResult (undefinedRead ai) response of
         Inl e \<Rightarrow> fst (catchClause e (w\<lparr>remote := r\<rparr>))
       | Inr url \<Rightarrow> Inr url)"
    using assms by (simp add: run_generate split: sum.splits)
  show ?thesis
    by (auto simp: run generateResult_def at0_def fst_catchClause)
qed

text \<open>
  C2. On the generate path, a missing or empty list of images is to fail with the reason
  "no image returned", and a first entry whose payload is empty or missing with the
  distinct reason "empty image payload". The function does so for the list, and for a
  first entry that holds an image whose \<open>imageBytes\<close> is missing or empty
  (\<open>generate_shape_failures\<close>). A first entry that holds no \<open>image\<close> has no payload
  either (the library declares \<open>image\<close> optional; an image the provider has filtered out
  comes with a \<open>raiFilteredReason\<close> instead), and there the function does not reach its
  check of the payload: line 59 reads \<open>imageBytes\<close> of \<open>undefined\<close>, and the call fails
  with the engine's \<open>TypeError\<close> message, here V8's, not with
  \<open>Generated image data is empty.\<close>
\<close>

theorem generate_entry_without_image:
  "fst (generateOrEditImage
          (scripted (Inl (NonError ''unused''))
             (Inr (imagesReply [\<lparr>image' = None, raiFilteredReason = Some ''blocked''\<rparr>])))
          ''a lighthouse at dusk'' None freshWorld)
     = Inl (JsError ''Gemini API Error: Cannot read properties of undefined (reading 'imageBytes')'')
   \<and> ''Gemini API Error: Cannot read properties of undefined (reading 'imageBytes')''
     \<noteq> ''Gemini API Error: Generated image data is empty.''"
  by (simp add: run_generate fst_catchClause generateResult_def at0_def
        scripted_def freshWorld_def imagesReply_def v8UndefinedRead_def)

text \<open>
  C5. On the generate path, when the first generated image has a non-empty payload \<open>P\<close>,
  the call returns \<open>P\<close> with the media type \<open>image/jpeg\<close>, as the data URL
  \<open>data:image/jpeg;base64,P\<close>, whatever media type (\<open>claimed\<close>) the response gives the
  image.
\<close>

theorem generate_returns_jpeg:
  assumes "generateImages ai (generateRequest prompt) (remote w) = (Inr response, r)"
    and "generatedImages response = Some (g # gs)"
    and "image' g = Some \<lparr>imageBytes = Some P, image_mimeType = claimed\<rparr>"
    and "P \<noteq> []"
  shows "generateOrEditImage ai prompt None w
           = (Inr (''data:image/jpeg;base64,'' @ P), w\<lparr>remote := r\<rparr>)"
proof -
  have "generateResult (undefinedRead ai) response = Inr (''data:image/jpeg;base64,'' @ P)"
    using assms(2-4) by (simp add: generateResult_def at0_def)
  then show ?thesis
    using assms(1) by (simp add: run_generate)
qed

theorem generate_returns_jpeg_witness:
  "generateOrEditImage
     (scripted (Inl (NonError ''unused''))
        (Inr (imagesReply
           [\<lparr>image' = Some \<lparr>imageBytes = Some ''CCCC'', image_mimeType = Some ''image/png''\<rparr>,
             raiFilteredReason = None\<rparr>])))
     ''a lighthouse at dusk'' None freshWorld
   = (Inr ''data:image/jpeg;base64,CCCC'', \<lparr>console = [], remote = Suc 0\<rparr>)"
  using generate_returns_jpeg
    [of "scripted (Inl (NonError ''unused''))
           (Inr (imagesReply
              [\<lparr>image' = Some \<lparr>imageBytes = Some ''CCCC'', image_mimeType = Some ''image/png''\<rparr>,
                raiFilteredReason = None\<rparr>]))"
        "''a lighthouse at dusk''" freshWorld
        "imagesReply
           [\<lparr>image' = Some \<lparr>imageBytes = Some ''CCCC'', image_mimeType = Some ''image/png''\<rparr>,
             raiFilteredReason = None\<rparr>]"
        "Suc 0"
        "\<lparr>image' = Some \<lparr>imageBytes = Some ''CCCC'', image_mimeType = Some ''image/png''\<rparr>,
          raiFilteredReason = None\<rparr>"
        "[]" "''CCCC''" "Some ''image/png''"]
  by (simp add: scripted_def freshWorld_def imagesReply_def)

subsection \<open>The handler\<close>

text \<open>
  C6. Whatever is thrown inside \<open>try\<close> (by the network call, by the reading of the
  response, or by the function's own \<open>throw\<close>) is caught once, logged once, and thrown
  again as one \<open>Error\<close>: with the message of the value caught behind the prefix
  \<open>Gemini API Error: \<close> when that value is an \<open>Error\<close>, with the fixed message
  \<open>An unknown error occurred while generating the content.\<close> otherwise. A value the
  client throws reaches the handler as it is, on either path, and never leaves the
  function as it is; so does the \<open>TypeError\<close> of line 59. What leaves the function is
  never a value that is not an \<open>Error\<close>.
\<close>

theorem boundary_catch:
  "(tryBlock ai prompt img w = (Inl (JsError m), w') \<longrightarrow>
      generateOrEditImage ai prompt img w
        = (Inl (JsError (''Gemini API Error: '' @ m)),
           w'\<lparr>console := console w' @ [(''Error generating content with Gemini API:'', JsError m)]\<rparr>))
   \<and> (tryBlock ai prompt img w = (Inl (NonError v), w') \<longrightarrow>
      generateOrEditImage ai prompt img w
        = (Inl (JsError ''An unknown error occurred while generating the content.''),
           w'\<lparr>console := console w' @ [(''Error generating content with Gemini API:'', NonError v)]\<rparr>))
   \<and> (\<forall>i e r. img = Some i \<and> generateContent ai (editRequest prompt i) (remote w) = (Inl e, r) \<longrightarrow>
        tryBlock ai prompt img w = (Inl e, w\<lparr>remote := r\<rparr>)
        \<and> fst (generateOrEditImage ai prompt img w) \<noteq> Inl e)
   \<and> (\<forall>e r. img = None \<and> generateImages ai (generateRequest prompt) (remote w) = (Inl e, r) \<longrightarrow>
        tryBlock ai prompt img w = (Inl e, w\<lparr>remote := r\<rparr>)
        \<and> fst (generateOrEditImage ai prompt img w) \<noteq> Inl e)
   \<and> (\<forall>response r g gs. img = None
        \<and> generateImages ai (generateRequest prompt) (remote w) = (Inr response, r)
        \<and> generatedImages response = Some (g # gs) \<and> image' g = None \<longrightarrow>
        tryBlock ai prompt img w = (Inl (JsError (undefinedRead ai ''imageBytes'')), w\<lparr>remote := r\<rparr>))
   \<and> (\<forall>x. fst (generateOrEditImage ai prompt img w) \<noteq> Inl (NonError x))"
proof (intro conjI allI impI)
  assume "tryBlock ai prompt img w = (Inl (JsError m), w')"
  then show "generateOrEditImage ai prompt img w
        = (Inl (JsError (''Gemini API Error: '' @ m)),
           w'\<lparr>console := console w' @ [(''Error generating content with Gemini API:'', JsError m)]\<rparr>)"
    by (simp add: generateOrEditImage_def catchClause_def)
next
  assume "tryBlock ai prompt img w = (Inl (NonError v), w')"
  then show "generateOrEditImage ai prompt img w
        = (Inl (JsError ''An unknown error occurred while generating the content.''),
           w'\<lparr>console := console w' @ [(''Error generating content with Gemini API:'', NonError v)]\<rparr>)"
    by (simp add: generateOrEditImage_def catchClause_def)
next
  fix i e r
  assume "img = Some i \<and> generateContent ai (editRequest prompt i) (remote w) = (Inl e, r)"
  then show "tryBlock ai prompt img w = (Inl e, w\<lparr>remote := r\<rparr>)"
    and "fst (generateOrEditImage ai prompt img w) \<noteq> Inl e"
    by (simp_all add: tryBlock_edit run_edit rethrown_differs)
next
  fix e r
  assume "img = None \<and> generateImages ai (generateRequest prompt) (remote w) = (Inl e, r)"
  then show "tryBlock ai prompt img w = (Inl e, w\<lparr>remote := r\<rparr>)"
    and "fst (generateOrEditImage ai prompt img w) \<noteq> Inl e"
    by (simp_all add: tryBlock_generate run_generate rethrown_differs)
next
  fix response r g gs
  assume "img = None
        \<and> generateImages ai (generateRequest prompt) (remote w) = (Inr response, r)
        \<and> generatedImages response = Some (g # gs) \<and> image' g = None"
  then show "tryBlock ai prompt img w
      = (Inl (JsError (undefinedRead ai ''imageBytes'')), w\<lparr>remote := r\<rparr>)"
    by (simp add: tryBlock_generate generateResult_def at0_def)
next
  fix x
  show "fst (generateOrEditImage ai prompt img w) \<noteq> Inl (NonError x)"
    by (rule never_non_error)
qed

theorem boundary_catch_witness:
  "generateOrEditImage
     (scripted (Inl (NonError ''unused'')) (Inl (JsError ''fetch failed'')))
     ''a lighthouse at dusk'' None freshWorld
   = (Inl (JsError ''Gemini API Error: fetch failed''),
      \<lparr>console = [(''Error generating content with Gemini API:'', JsError ''fetch failed'')],
       remote = Suc 0\<rparr>)
   \<and> generateOrEditImage
     (scripted (Inl (NonError ''timeout'')) (Inl (NonError ''unused'')))
     ''make the sky red'' (Some pngUpload) freshWorld
   = (Inl (JsError ''An unknown error occurred while generating the content.''),
      \<lparr>console = [(''Error generating content with Gemini API:'', NonError ''timeout'')],
       remote = Suc 0\<rparr>)"
  using
    boundary_catch
      [where ai = "scripted (Inl (NonError ''unused'')) (Inl (JsError ''fetch failed''))"
         and prompt = "''a lighthouse at dusk''" and img = None and w = freshWorld
         and m = "''fetch failed''" and w' = "\<lparr>console = [], remote = Suc 0\<rparr>",
       THEN conjunct1]
    boundary_catch
      [where ai = "scripted (Inl (NonError ''timeout'')) (Inl (NonError ''unused''))"
         and prompt = "''make the sky red''" and img = "Some pngUpload" and w = freshWorld
         and v = "''timeout''" and w' = "\<lparr>console = [], remote = Suc 0\<rparr>",
       THEN conjunct2, THEN conjunct1]
  by (simp add: scripted_def freshWorld_def tryBlock_def)

subsection \<open>No state of its own\<close>

text \<open>
  C7. The function keeps nothing between calls. Two calls with the same prompt and the
  same image, made in any two states of the world (\<open>w2\<close> may be the state the first call
  left: another console, another state of the provider), give the same outcome, the same
  data URL or the same error, whenever the client gives the same reply to the request in
  both.
\<close>

theorem same_reply_same_outcome:
  "(fst (generateContent ai (editRequest prompt i) (remote w1))
      = fst (generateContent ai (editRequest prompt i) (remote w2)) \<longrightarrow>
    fst (generateOrEditImage ai prompt (Some i) w1) = fst (generateOrEditImage ai prompt (Some i) w2))
   \<and> (fst (generateImages ai (generateRequest prompt) (remote w1))
      = fst (generateImages ai (generateRequest prompt) (remote w2)) \<longrightarrow>
    fst (generateOrEditImage ai prompt None w1) = fst (generateOrEditImage ai prompt None w2))"
proof -
  have edit: "fst (generateOrEditImage ai prompt (Some i) w) =
      (case fst (generateContent ai (editRequest prompt i) (remote w)) of
         Inl e \<Rightarrow> fst (catchClause e w)
       | Inr response \<Rightarrow>
           (case editResult response of Inl e \<Rightarrow> fst (catchClause e w) | Inr url \<Rightarrow> Inr url))" for w
    by (simp add: run_edit fst_catchClause split: prod.splits sum.splits)
  have generate: "fst (generateOrEditImage ai prompt None w) =
      (case fst (generateImages ai (generateRequest prompt) (remote w)) of
         Inl e \<Rightarrow> fst (catchClause e w)
       | Inr response \<Rightarrow>
           (case generateResult (undefinedRead ai) response of
              Inl e \<Rightarrow> fst (catchClause e w) | Inr url \<Rightarrow> Inr url))" for w
    by (simp add: run_generate fst_catchClause split: prod.splits sum.splits)
  show ?thesis
    by (simp add: edit generate fst_catchClause split: sum.splits)
qed

theorem same_reply_same_outcome_witness:
  "fst (generateOrEditImage
          (scripted (Inl (NonError ''unused'')) (Inr (imagesReply [])))
          ''a lighthouse at dusk'' None
          (snd (generateOrEditImage
                  (scripted (Inl (NonError ''unused'')) (Inr (imagesReply [])))
                  ''a lighthouse at dusk'' None freshWorld)))
     = fst (generateOrEditImage
          (scripted (Inl (NonError ''unused'')) (Inr (imagesReply [])))
          ''a lighthouse at dusk'' None freshWorld)"
  using same_reply_same_outcome
    [where ai = "scripted (Inl (NonError ''unused'')) (Inr (imagesReply []))"
       and prompt = "''a lighthouse at dusk''"
       and ?w1.0 = "snd (generateOrEditImage
                (scripted (Inl (NonError ''unused'')) (Inr (imagesReply [])))
                ''a lighthouse at dusk'' None freshWorld)"
       and ?w2.0 = freshWorld,
     THEN conjunct2]
  by (simp add: scripted_def)

subsection \<open>What leaves the function\<close>

text \<open>
  C10, as claimed: every error that leaves the function carries the handler's prefix
  around its reason. It does not hold: when what the handler caught is not an \<open>Error\<close>
  (here the client rejects with a string), the error that leaves is the fixed message of
  line 71, which has no prefix.
\<close>

theorem unknown_error_has_no_prefix:
  "fst (generateOrEditImage
          (scripted (Inl (NonError ''unused'')) (Inl (NonError ''offline'')))
          ''a lighthouse at dusk'' None freshWorld)
     = Inl (JsError ''An unknown error occurred while generating the content.'')
   \<and> take (length ''Gemini API Error: '') ''An unknown error occurred while generating the content.''
     \<noteq> ''Gemini API Error: ''"
  by (simp add: run_generate fst_catchClause scripted_def freshWorld_def)

text \<open>
  C10, amended. The function's own three errors are thrown inside \<open>try\<close>, so the handler
  catches them like any other: each leaves with the prefix \<open>Gemini API Error: \<close> before
  its message, and none ever leaves without it. Every error that leaves the function is
  the prefix followed by the message of the \<open>Error\<close> caught, or, when what was caught is
  not an \<open>Error\<close>, the fixed message of line 71, without prefix.
\<close>

theorem canonical_reasons_wrapped:
  "(\<forall>e. fst (generateOrEditImage ai prompt img w) = Inl e \<longrightarrow>
      (\<exists>c. fst (tryBlock ai prompt img w) = Inl c
         \<and> e = JsError (case c of
               JsError m \<Rightarrow> ''Gemini API Error: '' @ m
             | NonError v \<Rightarrow> ''An unknown error occurred while generating the content.'')))
   \<and> (\<forall>reason. reason \<in> {''API did not return an edited image.'',
                     ''API did not return any images.'', ''Generated image data is empty.''} \<longrightarrow>
        (fst (tryBlock ai prompt img w) = Inl (JsError reason) \<longrightarrow>
           fst (generateOrEditImage ai prompt img w) = Inl (JsError (''Gemini API Error: '' @ reason)))
        \<and> fst (generateOrEditImage ai prompt img w) \<noteq> Inl (JsError reason))"
proof -
  have run: "fst (generateOrEditImage ai prompt img w) =
      (case fst (tryBlock ai prompt img w) of
         Inl c \<Rightarrow> Inl (JsError (case c of
               JsError m \<Rightarrow> ''Gemini API Error: '' @ m
             | NonError v \<Rightarrow> ''An unknown error occurred while generating the content.''))
       | Inr url \<Rightarrow> Inr url)"
    by (cases "tryBlock ai prompt img w")
       (simp add: generateOrEditImage_def fst_catchClause split: sum.splits)
  show ?thesis
    by (auto simp: run split: sum.splits thrown.splits)
qed

theorem canonical_reasons_wrapped_witness:
  "fst (generateOrEditImage
          (scripted (Inl (NonError ''unused'')) (Inr (imagesReply [])))
          ''a lighthouse at dusk'' None freshWorld)
     = Inl (JsError ''Gemini API Error: API did not return any images.'')"
  using canonical_reasons_wrapped
    [where ai = "scripted (Inl (NonError ''unused'')) (Inr (imagesReply []))"
       and prompt = "''a lighthouse at dusk''" and img = None and w = freshWorld,
     THEN conjunct2, rule_format, of "''API did not return any images.''", THEN conjunct1]
  by (simp add: tryBlock_def generateResult_def scripted_def freshWorld_def imagesReply_def)

end
